theory Spec2Isabelle
  imports Main "HOL-Library.Sublist"
begin

section \<open>Errors\<close>

text \<open>
  Every \<^verbatim>\<open>raise\<close> of \<^verbatim>\<open>cte_utils.py\<close> is a \<^verbatim>\<open>ValueError\<close> with a message; indexing
  an empty Python list raises \<^verbatim>\<open>IndexError\<close>; the SQL parser raises its own
  \<^verbatim>\<open>ParseError\<close>. A function that can raise returns \<open>error + 'a\<close>, \<open>Inl\<close> the error.
\<close>

datatype error = ValueError string | IndexError | ParseError

section \<open>The semantic model (the protobuf messages the code reads and writes)\<close>

text \<open>
  The message declarations live in the protobuf schema of the repository, which is not
  among the source files. The records below carry the fields that \<^verbatim>\<open>cte_utils.py\<close>
  reads and writes.
\<close>

text \<open>
  Modelled from the spec: the declaration of the enum \<^verbatim>\<open>ColumnKind\<close> is missing. The spec
  names the kinds dimension, time dimension and measure; a freshly constructed \<^verbatim>\<open>Column()\<close>
  holds the enum's zero value before the code assigns a kind. Python reads an enum field
  as an integer, and \<^verbatim>\<open>is_aggregation_expr\<close> compares it with the literal \<^verbatim>\<open>2\<close> where its
  docstring says measure: \<open>ColumnKind_Value\<close> is that numbering.
\<close>

datatype ColumnKind =
  ColumnKind_unknown | ColumnKind_dimension | ColumnKind_measure | ColumnKind_time_dimension

fun ColumnKind_Value :: "ColumnKind \<Rightarrow> int" where
  "ColumnKind_Value ColumnKind_unknown = 0"
| "ColumnKind_Value ColumnKind_dimension = 1"
| "ColumnKind_Value ColumnKind_measure = 2"
| "ColumnKind_Value ColumnKind_time_dimension = 3"

record FullyQualifiedTable =
  database :: string
  schema :: string
  table :: string

text \<open>\<open>default_aggregation\<close> is an enum field; it is kept as the integer Python reads.\<close>

record Column =
  name :: string
  synonyms :: "string list"
  description :: string
  expr :: string
  data_type :: string
  kind :: ColumnKind
  unique :: bool
  default_aggregation :: int
  sample_values :: "string list"

record Dimension =
  name :: string
  synonyms :: "string list"
  description :: string
  expr :: string
  data_type :: string
  unique :: bool
  sample_values :: "string list"

record TimeDimension =
  name :: string
  synonyms :: "string list"
  description :: string
  expr :: string
  data_type :: string
  unique :: bool
  sample_values :: "string list"

text \<open>
  Modelled from the spec: the declaration of the \<^verbatim>\<open>Measure\<close> message is missing. The spec
  describes every entry of the split shape as a dimension-like record, with
  \<open>default_aggregation\<close> on measures only, so the record carries \<open>unique\<close> as well.
\<close>

record Measure =
  name :: string
  synonyms :: "string list"
  description :: string
  expr :: string
  data_type :: string
  unique :: bool
  default_aggregation :: int
  sample_values :: "string list"

record Table =
  name :: string
  description :: string
  base_table :: FullyQualifiedTable
  columns :: "Column list"
  dimensions :: "Dimension list"
  time_dimensions :: "TimeDimension list"
  measures :: "Measure list"

record SemanticModel =
  tables :: "Table list"

text \<open>\<^verbatim>\<open>semantic_model_pb2.Column()\<close>: every field at its protobuf default.\<close>

definition Column_new :: Column where
  "Column_new =
     \<lparr>Column.name = [], Column.synonyms = [], Column.description = [], Column.expr = [],
      Column.data_type = [], Column.kind = ColumnKind_unknown, Column.unique = False,
      Column.default_aggregation = 0, Column.sample_values = []\<rparr>"

section \<open>\<^verbatim>\<open>context_to_column_format\<close>\<close>

text \<open>
  The bodies of the three loops of lines 189-226: each builds a fresh \<^verbatim>\<open>Column\<close>, assigns
  its fields in the order of the source, and appends it to \<^verbatim>\<open>table.columns\<close>. The measure
  loop assigns \<open>default_aggregation\<close> where the other two assign \<open>unique\<close>.
\<close>

definition column_of_dimension :: "Dimension \<Rightarrow> Column" where
  "column_of_dimension d =
     (let col = Column_new;
          col = col\<lparr>Column.kind := ColumnKind_dimension\<rparr>;
          col = col\<lparr>Column.name := Dimension.name d\<rparr>;
          col = col\<lparr>Column.synonyms := Column.synonyms col @ Dimension.synonyms d\<rparr>;
          col = col\<lparr>Column.description := Dimension.description d\<rparr>;
          col = col\<lparr>Column.expr := Dimension.expr d\<rparr>;
          col = col\<lparr>Column.data_type := Dimension.data_type d\<rparr>;
          col = col\<lparr>Column.unique := Dimension.unique d\<rparr>;
          col = col\<lparr>Column.sample_values := Column.sample_values col @ Dimension.sample_values d\<rparr>
      in col)"

definition column_of_time_dimension :: "TimeDimension \<Rightarrow> Column" where
  "column_of_time_dimension td =
     (let col = Column_new;
          col = col\<lparr>Column.kind := ColumnKind_time_dimension\<rparr>;
          col = col\<lparr>Column.name := TimeDimension.name td\<rparr>;
          col = col\<lparr>Column.synonyms := Column.synonyms col @ TimeDimension.synonyms td\<rparr>;
          col = col\<lparr>Column.description := TimeDimension.description td\<rparr>;
          col = col\<lparr>Column.expr := TimeDimension.expr td\<rparr>;
          col = col\<lparr>Column.data_type := TimeDimension.data_type td\<rparr>;
          col = col\<lparr>Column.unique := TimeDimension.unique td\<rparr>;
          col = col\<lparr>Column.sample_values :=
                  Column.sample_values col @ TimeDimension.sample_values td\<rparr>
      in col)"

definition column_of_measure :: "Measure \<Rightarrow> Column" where
  "column_of_measure m =
     (let col = Column_new;
          col = col\<lparr>Column.kind := ColumnKind_measure\<rparr>;
          col = col\<lparr>Column.name := Measure.name m\<rparr>;
          col = col\<lparr>Column.synonyms := Column.synonyms col @ Measure.synonyms m\<rparr>;
          col = col\<lparr>Column.description := Measure.description m\<rparr>;
          col = col\<lparr>Column.expr := Measure.expr m\<rparr>;
          col = col\<lparr>Column.data_type := Measure.data_type m\<rparr>;
          col = col\<lparr>Column.default_aggregation := Measure.default_aggregation m\<rparr>;
          col = col\<lparr>Column.sample_values := Column.sample_values col @ Measure.sample_values m\<rparr>
      in col)"

text \<open>The three \<^verbatim>\<open>for\<close> loops: one \<^verbatim>\<open>table.columns.append(col)\<close> per entry, in order.\<close>

fun append_dimensions :: "Table \<Rightarrow> Dimension list \<Rightarrow> Table" where
  "append_dimensions t [] = t"
| "append_dimensions t (d # ds) =
     append_dimensions (t\<lparr>columns := columns t @ [column_of_dimension d]\<rparr>) ds"

fun append_time_dimensions :: "Table \<Rightarrow> TimeDimension list \<Rightarrow> Table" where
  "append_time_dimensions t [] = t"
| "append_time_dimensions t (td # tds) =
     append_time_dimensions (t\<lparr>columns := columns t @ [column_of_time_dimension td]\<rparr>) tds"

fun append_measures :: "Table \<Rightarrow> Measure list \<Rightarrow> Table" where
  "append_measures t [] = t"
| "append_measures t (m # ms) =
     append_measures (t\<lparr>columns := columns t @ [column_of_measure m]\<rparr>) ms"

text \<open>
  The message of line 185. The literal has no \<^verbatim>\<open>f\<close> prefix in the source, so the braces
  and \<^verbatim>\<open>table.name\<close> are characters of the message, not a placeholder.
\<close>

definition both_formats_message :: string where
  "both_formats_message =
     ''table {table.name} defines both columns and dimensions/time_dimensions/measures.''"

text \<open>
  The body of the loop over \<^verbatim>\<open>ret.tables\<close> (lines 177-226), on one table: the error, the
  \<^verbatim>\<open>continue\<close>, or the table with its columns appended and its split sequences cleared.
\<close>

definition convert_table :: "Table \<Rightarrow> error + Table" where
  "convert_table t =
     (let column_format = length (columns t) > 0;
          dimension_measure_format =
            (length (dimensions t) > 0 \<or> length (time_dimensions t) > 0
             \<or> length (measures t) > 0)
      in if column_format \<and> dimension_measure_format then Inl (ValueError both_formats_message)
         else if column_format then Inr t
         else
           (let t = append_dimensions t (dimensions t);
                t = t\<lparr>dimensions := []\<rparr>;
                t = append_time_dimensions t (time_dimensions t);
                t = t\<lparr>time_dimensions := []\<rparr>;
                t = append_measures t (measures t);
                t = t\<lparr>measures := []\<rparr>
            in Inr t))"

text \<open>The loop over the tables of the copy: the first table that raises ends the call.\<close>

fun convert_tables :: "Table list \<Rightarrow> error + Table list" where
  "convert_tables [] = Inr []"
| "convert_tables (t # ts) =
     (case convert_table t of
        Inl e \<Rightarrow> Inl e
      | Inr t' \<Rightarrow>
          (case convert_tables ts of
             Inl e \<Rightarrow> Inl e
           | Inr ts' \<Rightarrow> Inr (t' # ts')))"

text \<open>
  \<^verbatim>\<open>ret = SemanticModel(); ret.CopyFrom(ctx)\<close>, the loop over \<^verbatim>\<open>ret.tables\<close>, and
  \<^verbatim>\<open>return ret\<close>, as a function of the value of \<^verbatim>\<open>ctx\<close>.
\<close>

definition context_to_column_format :: "SemanticModel \<Rightarrow> error + SemanticModel" where
  "context_to_column_format ctx =
     (let ret = ctx in
      case convert_tables (tables ret) of
        Inl e \<Rightarrow> Inl e
      | Inr ts \<Rightarrow> Inr (ret\<lparr>tables := ts\<rparr>))"

section \<open>Logical table names\<close>

definition LOGICAL_TABLE_PREFIX :: string where
  "LOGICAL_TABLE_PREFIX = ''__''"

definition is_logical_table :: "string \<Rightarrow> bool" where
  "is_logical_table table_name =
     (prefix LOGICAL_TABLE_PREFIX table_name
      \<and> length table_name > length LOGICAL_TABLE_PREFIX)"

definition logical_table_name :: "Table \<Rightarrow> string" where
  "logical_table_name t = LOGICAL_TABLE_PREFIX @ Table.name t"

definition fully_qualified_table_name :: "FullyQualifiedTable \<Rightarrow> string" where
  "fully_qualified_table_name t =
     (let fqn = table t;
          fqn = (if length (schema t) > 0 then schema t @ ''.'' @ fqn else fqn);
          fqn = (if length (database t) > 0 then database t @ ''.'' @ fqn else fqn)
      in fqn)"

section \<open>The SQL parser and printer, at their boundary\<close>

text \<open>
  The code calls a third-party SQL library for three things: parsing a column expression
  and searching the tree for nodes of a class; parsing a statement (or a \<^verbatim>\<open>WITH\<close> clause)
  and reading or replacing its \<^verbatim>\<open>WITH\<close> clause and the list of its entries; printing a
  statement. The library is no code of the repository, so its parsers and its printer are
  parameters of the functions below, and the trees carry what the code looks at.

  An expression tree: each node is an aggregate function, a window, or any other node,
  and has its children.
\<close>

datatype node_class = AggFunc | Window | Other

datatype Expression = Expression node_class "Expression list"

text \<open>
  \<^verbatim>\<open>parsed.find_all(cls)\<close>: every node of the class, the root included. The library walks
  breadth first and this walk is depth first; the code only takes the length of the list.
\<close>

fun find_all :: "node_class \<Rightarrow> Expression \<Rightarrow> Expression list" where
  "find_all c (Expression k args) =
     (if k = c then [Expression k args] else []) @ concat (map (find_all c) args)"

text \<open>
  A statement: its \<^verbatim>\<open>WITH\<close> clause (\<^verbatim>\<open>ast.args.get("with")\<close>, \<open>None\<close> when absent) and the
  rest of the statement, of a type \<open>'b\<close> the code never looks into. A \<^verbatim>\<open>WITH\<close> clause: the
  list of its entries. An entry: its alias and its query.
\<close>

record 'b CTE =
  cte_alias :: string
  this :: 'b

record 'b With =
  expressions :: "'b CTE list"
  recursive :: bool

record 'b Statement =
  with_clause :: "'b With option"
  body :: 'b

section \<open>\<^verbatim>\<open>is_aggregation_expr\<close>\<close>

definition only_measures_message :: string where
  "only_measures_message = ''Only allow aggregation expressions for measures.''"

definition is_aggregation_expr :: "(string \<Rightarrow> error + Expression) \<Rightarrow> Column \<Rightarrow> error + bool" where
  "is_aggregation_expr parse_expr col =
     (case parse_expr (Column.expr col) of
        Inl e \<Rightarrow> Inl e
      | Inr parsed \<Rightarrow>
          (let agg_func = find_all AggFunc parsed;
               window = find_all Window parsed
           in if length agg_func > 0 \<and> length window = 0
              then (if ColumnKind_Value (Column.kind col) \<noteq> 2
                    then Inl (ValueError only_measures_message)
                    else Inr True)
              else Inr False))"

text \<open>
  The spec's wording of the test, for comparison with the code's: the tree contains a node
  of the class.
\<close>

fun contains_node :: "node_class \<Rightarrow> Expression \<Rightarrow> bool" where
  "contains_node c (Expression k args) = (k = c \<or> list_ex (contains_node c) args)"

section \<open>\<^verbatim>\<open>_generate_cte_for\<close>\<close>

text \<open>
  \<^verbatim>\<open>str.lower\<close>, on the ASCII letters: a \<open>string\<close> is a list of bytes, and the capital
  letters \<^verbatim>\<open>A\<close> to \<^verbatim>\<open>Z\<close> (65 to 90) go to the small ones, 32 further.
\<close>

definition lower_char :: "char \<Rightarrow> char" where
  "lower_char c =
     (let n = (of_char c :: nat) in if 65 \<le> n \<and> n \<le> 90 then char_of (n + 32) else c)"

definition lower :: "string \<Rightarrow> string" where
  "lower s = map lower_char s"

text \<open>\<^verbatim>\<open>sep.join(xs)\<close>.\<close>

fun join :: "string \<Rightarrow> string list \<Rightarrow> string" where
  "join sep [] = []"
| "join sep [x] = x"
| "join sep (x # y # ys) = x @ sep @ join sep (y # ys)"

definition get_col_expr :: "Column \<Rightarrow> string" where
  "get_col_expr column =
     (if lower (Column.expr column) \<noteq> lower (Column.name column)
      then Column.expr column @ '' as '' @ Column.name column
      else Column.expr column)"

text \<open>
  The dictionary comprehension of lines 93-95: the columns are classified in order, the
  first classification that raises ends the call, and a column that is no aggregation is
  stored under its name (a later column of the same name replaces it).
\<close>

fun non_agg_columns ::
  "(string \<Rightarrow> error + Expression) \<Rightarrow> Column list \<Rightarrow> (string \<rightharpoonup> Column)
   \<Rightarrow> error + (string \<rightharpoonup> Column)" where
  "non_agg_columns parse_expr [] d = Inr d"
| "non_agg_columns parse_expr (col # cols) d =
     (case is_aggregation_expr parse_expr col of
        Inl e \<Rightarrow> Inl e
      | Inr b \<Rightarrow>
          non_agg_columns parse_expr cols (if \<not> b then d(Column.name col \<mapsto> col) else d))"

text \<open>
  Lines 92-112. The list comprehension keeps a column when its \<^emph>\<open>name\<close> is a key of the
  dictionary. The line feed of the source's \<^verbatim>\<open>\n\<close> is the character 10.
\<close>

definition generate_cte_for :: "(string \<Rightarrow> error + Expression) \<Rightarrow> Table \<Rightarrow> error + string" where
  "generate_cte_for parse_expr t =
     (case non_agg_columns parse_expr (columns t) Map.empty of
        Inl e \<Rightarrow> Inl e
      | Inr table_non_agg_column_names \<Rightarrow>
          (let cols = [] @ map get_col_expr
                        (filter (\<lambda>col. table_non_agg_column_names (Column.name col) \<noteq> None)
                           (columns t));
               cte = ''WITH '' @ logical_table_name t @ '' AS ('' @ [CHR 0x0A];
               cte = cte @ ''SELECT '' @ [CHR 0x0A];
               cte = cte @ join ('','' @ [CHR 0x0A]) cols @ [CHR 0x0A];
               cte = cte @ ''FROM '' @ fully_qualified_table_name (base_table t);
               cte = cte @ '')''
           in Inr cte))"

section \<open>\<^verbatim>\<open>remove_ltable_cte\<close>\<close>

definition must_contain_message :: string where
  "must_contain_message = ''Must contain the logical CTE.''"

text \<open>
  Lines 64-75, on the parsed statement. \<^verbatim>\<open>with_.expressions[0]\<close> raises \<^verbatim>\<open>IndexError\<close> on an
  empty list; \<^verbatim>\<open>with_.pop()\<close> takes the clause out of the statement, and
  \<^verbatim>\<open>with_.expressions[0].pop()\<close> takes the first entry out of the list.
\<close>

definition remove_first_cte :: "'b Statement \<Rightarrow> error + 'b Statement" where
  "remove_first_cte ast =
     (case with_clause ast of
        None \<Rightarrow> Inl (ValueError must_contain_message)
      | Some w \<Rightarrow>
          (case expressions w of
             [] \<Rightarrow> Inl IndexError
           | c # cs \<Rightarrow>
               if \<not> is_logical_table (cte_alias c) then Inl (ValueError must_contain_message)
               else if length (expressions w) = 1 then Inr (ast\<lparr>with_clause := None\<rparr>)
               else Inr (ast\<lparr>with_clause := Some (w\<lparr>expressions := cs\<rparr>)\<rparr>)))"

text \<open>The function itself: parse, lines 64-75, print.\<close>

definition remove_ltable_cte ::
  "(string \<Rightarrow> error + 'b Statement) \<Rightarrow> ('b Statement \<Rightarrow> string) \<Rightarrow> string \<Rightarrow> error + string" where
  "remove_ltable_cte parse_one sql sql_w_ltable_cte =
     (case parse_one sql_w_ltable_cte of
        Inl e \<Rightarrow> Inl e
      | Inr ast \<Rightarrow>
          (case remove_first_cte ast of
             Inl e \<Rightarrow> Inl e
           | Inr ast' \<Rightarrow> Inr (sql ast')))"


section \<open>\<^verbatim>\<open>expand_all_logical_tables_as_ctes\<close>\<close>

text \<open>The inner function: one text per table, in order; the first table that raises ends it.\<close>

fun generate_full_logical_table_ctes ::
  "(string \<Rightarrow> error + Expression) \<Rightarrow> Table list \<Rightarrow> error + string list" where
  "generate_full_logical_table_ctes parse_expr [] = Inr []"
| "generate_full_logical_table_ctes parse_expr (t # ts) =
     (case generate_cte_for parse_expr t of
        Inl e \<Rightarrow> Inl e
      | Inr cte \<Rightarrow>
          (case generate_full_logical_table_ctes parse_expr ts of
             Inl e \<Rightarrow> Inl e
           | Inr ctes \<Rightarrow> Inr (cte # ctes)))"

text \<open>Step 2: each text is parsed into a \<^verbatim>\<open>WITH\<close> clause.\<close>

fun parse_withs :: "(string \<Rightarrow> error + 'b With) \<Rightarrow> string list \<Rightarrow> error + 'b With list" where
  "parse_withs parse_with [] = Inr []"
| "parse_withs parse_with (cte # ctes) =
     (case parse_with cte of
        Inl e \<Rightarrow> Inl e
      | Inr w \<Rightarrow>
          (case parse_withs parse_with ctes of
             Inl e \<Rightarrow> Inl e
           | Inr ws \<Rightarrow> Inr (w # ws)))"

text \<open>\<^verbatim>\<open>[w.expressions[0] for w in ws]\<close>.\<close>

fun first_expressions :: "'b With list \<Rightarrow> error + 'b CTE list" where
  "first_expressions [] = Inr []"
| "first_expressions (w # ws) =
     (case expressions w of
        [] \<Rightarrow> Inl IndexError
      | c # _ \<Rightarrow>
          (case first_expressions ws of
             Inl e \<Rightarrow> Inl e
           | Inr cs \<Rightarrow> Inr (c # cs)))"

text \<open>Step 3 on the parsed statement (lines 153-163); \<^verbatim>\<open>new_withs[0]\<close> raises on an empty list.\<close>

definition prefix_ctes :: "'b With list \<Rightarrow> 'b Statement \<Rightarrow> error + 'b Statement" where
  "prefix_ctes new_withs ast =
     (case with_clause ast of
        None \<Rightarrow>
          (case new_withs of
             [] \<Rightarrow> Inl IndexError
           | merged_with # others \<Rightarrow>
               (case first_expressions others of
                  Inl e \<Rightarrow> Inl e
                | Inr remaining_ctes \<Rightarrow>
                    Inr (ast\<lparr>with_clause :=
                           Some (merged_with\<lparr>expressions :=
                                   expressions merged_with @ remaining_ctes\<rparr>)\<rparr>)))
      | Some w \<Rightarrow>
          (case first_expressions new_withs of
             Inl e \<Rightarrow> Inl e
           | Inr new_ctes \<Rightarrow>
               Inr (ast\<lparr>with_clause := Some (w\<lparr>expressions := new_ctes @ expressions w\<rparr>)\<rparr>)))"

definition expand_all_logical_tables_as_ctes ::
  "(string \<Rightarrow> error + Expression) \<Rightarrow> (string \<Rightarrow> error + 'b With)
   \<Rightarrow> (string \<Rightarrow> error + 'b Statement) \<Rightarrow> ('b Statement \<Rightarrow> string)
   \<Rightarrow> string \<Rightarrow> SemanticModel \<Rightarrow> error + string" where
  "expand_all_logical_tables_as_ctes parse_expr parse_with parse_one sql sql_query model =
     (case context_to_column_format model of
        Inl e \<Rightarrow> Inl e
      | Inr ctx \<Rightarrow>
          (case generate_full_logical_table_ctes parse_expr (tables ctx) of
             Inl e \<Rightarrow> Inl e
           | Inr ctes \<Rightarrow>
               (case parse_withs parse_with ctes of
                  Inl e \<Rightarrow> Inl e
                | Inr new_withs \<Rightarrow>
                    (case parse_one sql_query of
                       Inl e \<Rightarrow> Inl e
                     | Inr ast \<Rightarrow>
                         (case prefix_ctes new_withs ast of
                            Inl e \<Rightarrow> Inl e
                          | Inr ast' \<Rightarrow> Inr (sql ast'))))))"

section \<open>\<^verbatim>\<open>context_to_column_format\<close> on objects\<close>

text \<open>
  The caller holds a reference to a model object, and the function returns a reference.
  A heap is the list of the model objects, an address is an index into it. A protobuf
  message owns its sub-messages, so an object is the value of the whole model.
  \<^verbatim>\<open>SemanticModel()\<close> allocates a new empty object at the end of the heap, \<^verbatim>\<open>CopyFrom\<close>
  overwrites one object with the value of another, and the loop assigns to the tables of
  the object at \<open>ret\<close>, one after the other; a table that raises leaves the tables before
  it converted.
\<close>

type_synonym heap = "SemanticModel list"

definition SemanticModel_new :: "heap \<Rightarrow> nat \<times> heap" where
  "SemanticModel_new h = (length h, h @ [\<lparr>tables = []\<rparr>])"

definition CopyFrom :: "heap \<Rightarrow> nat \<Rightarrow> nat \<Rightarrow> heap" where
  "CopyFrom h dst src = h[dst := h ! src]"

fun convert_tables_in_place :: "heap \<Rightarrow> nat \<Rightarrow> nat list \<Rightarrow> error option \<times> heap" where
  "convert_tables_in_place h ret [] = (None, h)"
| "convert_tables_in_place h ret (i # rest) =
     (case convert_table (tables (h ! ret) ! i) of
        Inl e \<Rightarrow> (Some e, h)
      | Inr t' \<Rightarrow>
          convert_tables_in_place
            (h[ret := (h ! ret)\<lparr>tables := (tables (h ! ret))[i := t']\<rparr>]) ret rest)"

definition context_to_column_format_on_heap :: "heap \<Rightarrow> nat \<Rightarrow> (error + nat) \<times> heap" where
  "context_to_column_format_on_heap h ctx =
     (let (ret, h) = SemanticModel_new h;
          h = CopyFrom h ret ctx
      in case convert_tables_in_place h ret [0 ..< length (tables (h ! ret))] of
           (Some e, h') \<Rightarrow> (Inl e, h')
         | (None, h') \<Rightarrow> (Inr ret, h'))"

section \<open>A concrete model: the table of the spec's scenarios\<close>

text \<open>
  The table \<^verbatim>\<open>fact\<close> over \<^verbatim>\<open>db.sch.fact_tbl\<close>, with the dimension \<^verbatim>\<open>region\<close> and the measure
  \<^verbatim>\<open>total\<close>: in the split shape, in the column shape, and in both shapes at once.
\<close>

definition region_dimension :: Dimension where
  "region_dimension =
     \<lparr>Dimension.name = ''region'', Dimension.synonyms = [''area''],
      Dimension.description = ''sales region'', Dimension.expr = ''region_code'',
      Dimension.data_type = ''TEXT'', Dimension.unique = True,
      Dimension.sample_values = [''EMEA'']\<rparr>"

definition total_measure :: Measure where
  "total_measure =
     \<lparr>Measure.name = ''total'', Measure.synonyms = [], Measure.description = ''total amount'',
      Measure.expr = ''SUM(amount)'', Measure.data_type = ''NUMBER'', Measure.unique = True,
      Measure.default_aggregation = 1, Measure.sample_values = []\<rparr>"

definition fact_base_table :: FullyQualifiedTable where
  "fact_base_table = \<lparr>database = ''db'', schema = ''sch'', table = ''fact_tbl''\<rparr>"

definition fact_table :: Table where
  "fact_table =
     \<lparr>Table.name = ''fact'', Table.description = [], base_table = fact_base_table,
      columns = [], dimensions = [region_dimension], time_dimensions = [],
      measures = [total_measure]\<rparr>"

definition region_column :: Column where
  "region_column =
     \<lparr>Column.name = ''region'', Column.synonyms = [''area''],
      Column.description = ''sales region'', Column.expr = ''region_code'',
      Column.data_type = ''TEXT'', Column.kind = ColumnKind_dimension, Column.unique = True,
      Column.default_aggregation = 0, Column.sample_values = [''EMEA'']\<rparr>"

definition total_column :: Column where
  "total_column =
     \<lparr>Column.name = ''total'', Column.synonyms = [], Column.description = ''total amount'',
      Column.expr = ''SUM(amount)'', Column.data_type = ''NUMBER'',
      Column.kind = ColumnKind_measure, Column.unique = False,
      Column.default_aggregation = 1, Column.sample_values = []\<rparr>"

definition fact_table_columns :: Table where
  "fact_table_columns =
     \<lparr>Table.name = ''fact'', Table.description = [], base_table = fact_base_table,
      columns = [region_column, total_column], dimensions = [], time_dimensions = [],
      measures = []\<rparr>"

definition fact_table_both :: Table where
  "fact_table_both =
     \<lparr>Table.name = ''fact'', Table.description = [], base_table = fact_base_table,
      columns = [region_column], dimensions = [region_dimension], time_dimensions = [],
      measures = []\<rparr>"




section \<open>An instance of the parser and the printer\<close>

text \<open>
  The functions take the library's parsers and printer as parameters. To evaluate them on
  the concrete model, the parameters are instantiated: an expression parser that reads
  \<^verbatim>\<open>SUM(...)\<close> as an aggregate and \<^verbatim>\<open>SUM(...) OVER (...)\<close> as a window over an aggregate, a
  parser of \<^verbatim>\<open>WITH alias AS (query)\<close>, a printer of statements, and a statement parser that
  reads back what the printer gives for the statements listed and takes any other text
  that does not start with \<^verbatim>\<open>WITH\<close> as a statement without a \<^verbatim>\<open>WITH\<close> clause.
\<close>

definition example_parse_expr :: "string \<Rightarrow> error + Expression" where
  "example_parse_expr s =
     (if s = [] then Inl ParseError
      else if take 4 s = ''SUM('' then
        (if dropWhile (\<lambda>ch. ch \<noteq> CHR '')'') s = '')'' then Inr (Expression AggFunc [Expression Other []])
         else Inr (Expression Window [Expression AggFunc [Expression Other []], Expression Other []]))
      else Inr (Expression Other []))"

definition fact_cte_text :: string where
  "fact_cte_text =
     ''WITH __fact AS ('' @ [CHR 0x0A] @ ''SELECT '' @ [CHR 0x0A] @ ''region_code as region''
     @ [CHR 0x0A] @ ''FROM db.sch.fact_tbl)''"


definition example_parse_with :: "string \<Rightarrow> error + string With" where
  "example_parse_with s =
     (let r = drop 5 s;
          a = takeWhile (\<lambda>ch. ch \<noteq> CHR '' '') r;
          q = drop (length a + 5) r
      in if take 5 s = ''WITH '' \<and> take 5 (drop (length a) r) = '' AS ('' \<and> q \<noteq> []
            \<and> last q = CHR '')''
         then Inr \<lparr>expressions = [\<lparr>cte_alias = a, this = butlast q\<rparr>], recursive = False\<rparr>
         else Inl ParseError)"

definition fact_cte :: "string CTE" where
  "fact_cte =
     \<lparr>cte_alias = ''__fact'',
      this = [CHR 0x0A] @ ''SELECT '' @ [CHR 0x0A] @ ''region_code as region''
             @ [CHR 0x0A] @ ''FROM db.sch.fact_tbl''\<rparr>"

definition geo_cte :: "string CTE" where
  "geo_cte =
     \<lparr>cte_alias = ''__geo'',
      this = [CHR 0x0A] @ ''SELECT '' @ [CHR 0x0A] @ ''CODE'' @ [CHR 0x0A] @ ''FROM geo_tbl''\<rparr>"

definition other_cte :: "string CTE" where
  "other_cte = \<lparr>cte_alias = ''other'', this = ''SELECT 1''\<rparr>"

definition select_fact :: "string Statement" where
  "select_fact = \<lparr>with_clause = None, body = ''SELECT * FROM __fact''\<rparr>"

definition select_other :: "string Statement" where
  "select_other =
     \<lparr>with_clause = Some \<lparr>expressions = [other_cte], recursive = False\<rparr>,
      body = ''SELECT * FROM other''\<rparr>"

definition with_ctes :: "string CTE list \<Rightarrow> string Statement \<Rightarrow> string Statement" where
  "with_ctes cs ast = ast\<lparr>with_clause := Some \<lparr>expressions = cs, recursive = False\<rparr>\<rparr>"

definition example_sql :: "string Statement \<Rightarrow> string" where
  "example_sql ast =
     (case with_clause ast of
        None \<Rightarrow> body ast
      | Some w \<Rightarrow>
          ''WITH ''
          @ join '', '' (map (\<lambda>c. cte_alias c @ '' AS ('' @ this c @ '')'') (expressions w))
          @ '' '' @ body ast)"

definition example_statements :: "string Statement list" where
  "example_statements =
     [with_ctes [fact_cte, geo_cte] select_fact, with_ctes [geo_cte] select_fact,
      with_ctes [fact_cte] select_fact, select_other, with_ctes [other_cte] select_fact]"

definition example_parse_one :: "string \<Rightarrow> error + string Statement" where
  "example_parse_one s =
     (case find (\<lambda>ast. example_sql ast = s) example_statements of
        Some ast \<Rightarrow> Inr ast
      | None \<Rightarrow>
          if take 5 s = ''WITH '' then Inl ParseError else Inr \<lparr>with_clause = None, body = s\<rparr>)"

section \<open>Properties of \<^verbatim>\<open>context_to_column_format\<close>\<close>

lemma append_dimensions_eq:
  "append_dimensions t ds = t\<lparr>columns := columns t @ map column_of_dimension ds\<rparr>"
  by (induction ds arbitrary: t) simp_all

lemma append_time_dimensions_eq:
  "append_time_dimensions t ds = t\<lparr>columns := columns t @ map column_of_time_dimension ds\<rparr>"
  by (induction ds arbitrary: t) simp_all

lemma append_measures_eq:
  "append_measures t ds = t\<lparr>columns := columns t @ map column_of_measure ds\<rparr>"
  by (induction ds arbitrary: t) simp_all

lemma convert_table_split:
  "columns t = [] \<Longrightarrow>
   convert_table t =
     Inr (t\<lparr>columns := map column_of_dimension (dimensions t)
                   @ map column_of_time_dimension (time_dimensions t)
                   @ map column_of_measure (measures t),
             dimensions := [], time_dimensions := [], measures := []\<rparr>)"
  by (simp add: convert_table_def Let_def append_dimensions_eq append_time_dimensions_eq
      append_measures_eq)

lemma convert_table_column_format:
  "columns t \<noteq> [] \<Longrightarrow>
   convert_table t =
     (if dimensions t \<noteq> [] \<or> time_dimensions t \<noteq> [] \<or> measures t \<noteq> []
      then Inl (ValueError both_formats_message) else Inr t)"
  by (simp add: convert_table_def Let_def)

lemma convert_table_idem:
  assumes "convert_table t = Inr t'"
  shows "convert_table t' = Inr t'"
proof (cases "columns t = []")
  case True
  with assms have t': "t' = t\<lparr>columns := map column_of_dimension (dimensions t)
                   @ map column_of_time_dimension (time_dimensions t)
                   @ map column_of_measure (measures t),
             dimensions := [], time_dimensions := [], measures := []\<rparr>"
    by (simp add: convert_table_split)
  show ?thesis
  proof (cases "columns t' = []")
    case True
    then show ?thesis unfolding t' by (simp add: convert_table_split)
  next
    case False
    then show ?thesis unfolding t' by (simp add: convert_table_column_format)
  qed
next
  case False
  with assms show ?thesis by (auto simp: convert_table_column_format split: if_splits)
qed

lemma convert_tables_idem:
  "convert_tables ts = Inr ts' \<Longrightarrow> convert_tables ts' = Inr ts'"
  by (induction ts arbitrary: ts') (auto split: sum.splits dest: convert_table_idem)

lemma convert_tables_nth:
  "convert_tables ts = Inr ts' \<Longrightarrow>
   length ts' = length ts \<and> (\<forall>i < length ts. convert_table (ts ! i) = Inr (ts' ! i))"
proof (induction ts arbitrary: ts')
  case Nil
  then show ?case by simp
next
  case (Cons t ts)
  then show ?case by (auto split: sum.splits simp: nth_Cons split: nat.splits)
qed

lemma convert_fact_table: "convert_table fact_table = Inr fact_table_columns"
  by (simp add: convert_table_def fact_table_def fact_table_columns_def region_column_def
      total_column_def column_of_dimension_def column_of_measure_def Column_new_def
      region_dimension_def total_measure_def Let_def)

lemma canonicalize_fact_table:
  "context_to_column_format \<lparr>tables = [fact_table]\<rparr> = Inr \<lparr>tables = [fact_table_columns]\<rparr>"
  by (simp add: context_to_column_format_def convert_fact_table)

lemma convert_tables_both:
  "t \<in> set ts \<Longrightarrow> columns t \<noteq> [] \<Longrightarrow>
   dimensions t \<noteq> [] \<or> time_dimensions t \<noteq> [] \<or> measures t \<noteq> [] \<Longrightarrow>
   convert_tables ts = Inl (ValueError both_formats_message)"
proof (induction ts)
  case Nil
  then show ?case by simp
next
  case (Cons u us)
  show ?case
  proof (cases "convert_table u")
    case (Inl e)
    then have "e = ValueError both_formats_message"
      by (auto simp: convert_table_def Let_def split: if_splits)
    with Inl show ?thesis by simp
  next
    case (Inr u')
    with Cons.prems have "t \<noteq> u" by (auto simp: convert_table_column_format)
    with Cons show ?thesis using Inr by simp
  qed
qed

text \<open>
  Claim C6. Canonicalization is idempotent: when \<^verbatim>\<open>context_to_column_format\<close> returns a model,
  applying it to that model returns the same model again.
\<close>

theorem canonicalize_idempotent:
  "context_to_column_format M = Inr M' \<Longrightarrow> context_to_column_format M' = Inr M'"
  by (auto simp: context_to_column_format_def split: sum.splits dest: convert_tables_idem)

theorem canonicalize_idempotent_witness:
  "context_to_column_format \<lparr>tables = [fact_table]\<rparr> = Inr \<lparr>tables = [fact_table_columns]\<rparr>
   \<and> context_to_column_format \<lparr>tables = [fact_table_columns]\<rparr>
       = Inr \<lparr>tables = [fact_table_columns]\<rparr>"
  using canonicalize_idempotent [OF canonicalize_fact_table] canonicalize_fact_table by simp

text \<open>
  Claim C7. A model with a table that fills both the column shape and the split shape makes
  \<^verbatim>\<open>context_to_column_format\<close> raise a \<^verbatim>\<open>ValueError\<close>. Its message is the literal of line 185,
  the same for every table: it holds the characters \<^verbatim>\<open>{table.name}\<close>, not the table's name.
\<close>

theorem both_shapes_message_fixed:
  assumes "t \<in> set (tables M)" and "columns t \<noteq> []"
    and "dimensions t \<noteq> [] \<or> time_dimensions t \<noteq> [] \<or> measures t \<noteq> []"
  shows "context_to_column_format M =
           Inl (ValueError
             ''table {table.name} defines both columns and dimensions/time_dimensions/measures.'')"
  using convert_tables_both[OF assms]
  by (simp add: context_to_column_format_def both_formats_message_def)

theorem both_shapes_message_fixed_witness:
  "Table.name fact_table_both = ''fact''
   \<and> context_to_column_format \<lparr>tables = [fact_table_both]\<rparr> =
       Inl (ValueError
         ''table {table.name} defines both columns and dimensions/time_dimensions/measures.'')
   \<and> Table.name (fact_table_both\<lparr>Table.name := ''orders''\<rparr>) = ''orders''
   \<and> context_to_column_format \<lparr>tables = [fact_table_both\<lparr>Table.name := ''orders''\<rparr>]\<rparr> =
       Inl (ValueError
         ''table {table.name} defines both columns and dimensions/time_dimensions/measures.'')"
  using both_shapes_message_fixed [of fact_table_both "\<lparr>tables = [fact_table_both]\<rparr>"]
    both_shapes_message_fixed [of "fact_table_both\<lparr>Table.name := ''orders''\<rparr>"
      "\<lparr>tables = [fact_table_both\<lparr>Table.name := ''orders''\<rparr>]\<rparr>"]
  by (simp add: fact_table_both_def)




section \<open>The input object is left as it was\<close>

lemma convert_tables_in_place_frame:
  "convert_tables_in_place h ret idxs = (r, h') \<Longrightarrow>
   length h' = length h \<and> (\<forall>a. a \<noteq> ret \<longrightarrow> h' ! a = h ! a)"
proof (induction idxs arbitrary: h)
  case Nil
  then show ?case by simp
next
  case (Cons i idxs)
  show ?case
  proof (cases "convert_table (tables (h ! ret) ! i)")
    case (Inl e)
    with Cons.prems show ?thesis by simp
  next
    case (Inr t')
    let ?h1 = "h[ret := (h ! ret)\<lparr>tables := (tables (h ! ret))[i := t']\<rparr>]"
    from Cons.prems Inr have "convert_tables_in_place ?h1 ret idxs = (r, h')" by simp
    from Cons.IH[OF this] show ?thesis by simp
  qed
qed

lemma convert_tables_in_place_result:
  "ret < length h \<Longrightarrow> k + m = length (tables (h ! ret)) \<Longrightarrow>
   (case convert_tables (drop k (tables (h ! ret))) of
      Inl e \<Rightarrow> fst (convert_tables_in_place h ret [k ..< k + m]) = Some e
    | Inr ts' \<Rightarrow>
        fst (convert_tables_in_place h ret [k ..< k + m]) = None
        \<and> snd (convert_tables_in_place h ret [k ..< k + m]) ! ret
            = (h ! ret)\<lparr>tables := take k (tables (h ! ret)) @ ts'\<rparr>)"
proof (induction m arbitrary: k h)
  case 0
  then show ?case by simp
next
  case (Suc m)
  let ?ts = "tables (h ! ret)"
  have k: "k < length ?ts" using Suc.prems by simp
  have upt: "[k ..< k + Suc m] = k # [Suc k ..< Suc k + m]"
    by (simp add: upt_conv_Cons)
  have dr: "drop k ?ts = ?ts ! k # drop (Suc k) ?ts"
    using k by (simp add: Cons_nth_drop_Suc)
  show ?case
  proof (cases "convert_table (?ts ! k)")
    case (Inl e)
    then show ?thesis unfolding upt dr by simp
  next
    case (Inr t')
    let ?h1 = "h[ret := (h ! ret)\<lparr>tables := ?ts[k := t']\<rparr>]"
    have r1: "ret < length ?h1" using Suc.prems by simp
    have ts1: "tables (?h1 ! ret) = ?ts[k := t']" using Suc.prems by simp
    have len1: "Suc k + m = length (tables (?h1 ! ret))" using Suc.prems ts1 by simp
    have d1: "drop (Suc k) (tables (?h1 ! ret)) = drop (Suc k) ?ts" unfolding ts1 by simp
    have t1: "take (Suc k) (tables (?h1 ! ret)) = take k ?ts @ [t']"
      unfolding ts1 using k by (simp add: take_Suc_conv_app_nth)
    have h1r: "?h1 ! ret = (h ! ret)\<lparr>tables := ?ts[k := t']\<rparr>" using Suc.prems by simp
    note IH = Suc.IH[OF r1 len1, unfolded d1 t1]
    have step: "convert_tables_in_place h ret [k ..< k + Suc m]
                = convert_tables_in_place ?h1 ret [Suc k ..< Suc k + m]"
      unfolding upt using Inr by simp
    show ?thesis
    proof (cases "convert_tables (drop (Suc k) ?ts)")
      case (Inl e)
      with IH Inr show ?thesis unfolding step dr by simp
    next
      case (Inr ts'')
      with IH \<open>convert_table (?ts ! k) = Inr t'\<close> show ?thesis
        unfolding step dr h1r by simp
    qed
  qed
qed

text \<open>
  Claim C9. \<^verbatim>\<open>context_to_column_format\<close> allocates one new object and writes to that object
  only: every object of the heap before the call, the input among them, has its value
  after the call, whether the call returns or raises. When it returns, the reference is to
  the new object, which holds the canonical model; the result and the error are those of
  the function on values.
\<close>

theorem canonicalize_leaves_input:
  assumes "ctx < length h"
  shows "case context_to_column_format_on_heap h ctx of
           (r, h') \<Rightarrow>
             length h' = Suc (length h)
             \<and> (\<forall>a < length h. h' ! a = h ! a)
             \<and> (case r of
                  Inr ret \<Rightarrow> ret = length h \<and> context_to_column_format (h ! ctx) = Inr (h' ! ret)
                | Inl e \<Rightarrow> context_to_column_format (h ! ctx) = Inl e)"
proof -
  let ?ret = "length h"
  let ?h1 = "(h @ [\<lparr>tables = []\<rparr>])[?ret := h ! ctx]"
  have h1: "?h1 = h @ [h ! ctx]" by simp
  have ret: "?h1 ! ?ret = h ! ctx" by simp
  let ?ts = "tables (h ! ctx)"
  let ?run = "convert_tables_in_place ?h1 ?ret [0 ..< length ?ts]"
  have unfold: "context_to_column_format_on_heap h ctx =
     (case ?run of (Some e, h') \<Rightarrow> (Inl e, h') | (None, h') \<Rightarrow> (Inr ?ret, h'))"
    using assms
    by (simp add: context_to_column_format_on_heap_def SemanticModel_new_def CopyFrom_def
        nth_append)
  obtain r h' where run: "?run = (r, h')" by (cases ?run)
  from convert_tables_in_place_frame[OF run]
  have len: "length h' = Suc (length h)" and frame: "\<forall>a. a \<noteq> ?ret \<longrightarrow> h' ! a = ?h1 ! a"
    by simp_all
  have frame': "\<forall>a < length h. h' ! a = h ! a"
    using frame by (simp add: nth_append)
  have "?ret < length ?h1" by simp
  moreover have "0 + length ?ts = length (tables (?h1 ! ?ret))" by simp
  ultimately have res: "(case convert_tables (drop 0 (tables (?h1 ! ?ret))) of
      Inl e \<Rightarrow> fst (convert_tables_in_place ?h1 ?ret [0 ..< 0 + length ?ts]) = Some e
    | Inr ts' \<Rightarrow>
        fst (convert_tables_in_place ?h1 ?ret [0 ..< 0 + length ?ts]) = None
        \<and> snd (convert_tables_in_place ?h1 ?ret [0 ..< 0 + length ?ts]) ! ?ret
            = (?h1 ! ?ret)\<lparr>tables := take 0 (tables (?h1 ! ?ret)) @ ts'\<rparr>)"
    by (rule convert_tables_in_place_result)
  show ?thesis
  proof (cases "convert_tables ?ts")
    case (Inl e)
    with res run have "r = Some e" by simp
    with Inl run len frame' show ?thesis
      unfolding unfold by (simp add: context_to_column_format_def)
  next
    case (Inr ts')
    with res run have "r = None" and "h' ! ?ret = (h ! ctx)\<lparr>tables := ts'\<rparr>" by simp_all
    with Inr run len frame' show ?thesis
      unfolding unfold by (simp add: context_to_column_format_def)
  qed
qed

theorem canonicalize_leaves_input_witness:
  "context_to_column_format_on_heap [\<lparr>tables = [fact_table]\<rparr>] 0
     = (Inr 1, [\<lparr>tables = [fact_table]\<rparr>, \<lparr>tables = [fact_table_columns]\<rparr>])
   \<and> fst (context_to_column_format_on_heap [\<lparr>tables = [fact_table_columns, fact_table_both]\<rparr>] 0)
       = Inl (ValueError both_formats_message)
   \<and> snd (context_to_column_format_on_heap [\<lparr>tables = [fact_table_columns, fact_table_both]\<rparr>] 0) ! 0
       = \<lparr>tables = [fact_table_columns, fact_table_both]\<rparr>"
  using canonicalize_leaves_input [of 0 "[\<lparr>tables = [fact_table]\<rparr>]"]
    canonicalize_leaves_input [of 0 "[\<lparr>tables = [fact_table_columns, fact_table_both]\<rparr>]"]
  apply (simp add: context_to_column_format_on_heap_def SemanticModel_new_def CopyFrom_def
      convert_fact_table)
  apply (simp add: convert_table_def fact_table_columns_def fact_table_both_def Let_def)
  done

section \<open>The concrete model, evaluated\<close>

lemma parse_total: "example_parse_expr ''SUM(amount)'' = Inr (Expression AggFunc [Expression Other []])"
  by (simp add: example_parse_expr_def)

lemma parse_over: "example_parse_expr ''SUM(amount) OVER (PARTITION BY region_code)''
   = Inr (Expression Window [Expression AggFunc [Expression Other []], Expression Other []])"
  by (simp add: example_parse_expr_def)

lemma parse_region: "example_parse_expr ''region_code'' = Inr (Expression Other [])"
  by (simp add: example_parse_expr_def)

lemma lower_simps:
  "lower ''region_code'' = ''region_code''" "lower ''region'' = ''region''"
  "lower ''CODE'' = ''code''" "lower ''code'' = ''code''" "lower ''total'' = ''total''"
  by code_simp+

lemma agg_region: "is_aggregation_expr example_parse_expr region_column = Inr False"
  by (simp add: is_aggregation_expr_def example_parse_expr_def region_column_def)


lemma agg_total: "is_aggregation_expr example_parse_expr total_column = Inr True"
  by (simp add: is_aggregation_expr_def example_parse_expr_def total_column_def)


lemma generate_fact: "generate_cte_for example_parse_expr fact_table_columns = Inr fact_cte_text"
  by (simp add: generate_cte_for_def fact_table_columns_def agg_region agg_total Let_def
      get_col_expr_def logical_table_name_def LOGICAL_TABLE_PREFIX_def
      fully_qualified_table_name_def fact_base_table_def fact_cte_text_def)
     (simp add: region_column_def total_column_def lower_simps)


lemma parse_with_fact:
  "example_parse_with fact_cte_text = Inr \<lparr>expressions = [fact_cte], recursive = False\<rparr>"
  by (simp add: example_parse_with_def fact_cte_text_def fact_cte_def Let_def)




lemma sql_texts:
  "example_sql select_fact = ''SELECT * FROM __fact''"
  "example_sql select_other = ''WITH other AS (SELECT 1) SELECT * FROM other''"
  by (simp_all add: example_sql_def select_fact_def select_other_def other_cte_def)

lemma parse_one_select_fact: "example_parse_one ''SELECT * FROM __fact'' = Inr select_fact"
  by (simp add: example_parse_one_def example_statements_def example_sql_def with_ctes_def
      select_fact_def select_other_def fact_cte_def geo_cte_def other_cte_def)

lemma parse_one_select_other:
  "example_parse_one ''WITH other AS (SELECT 1) SELECT * FROM other'' = Inr select_other"
  by (simp add: example_parse_one_def example_statements_def example_sql_def with_ctes_def
      select_fact_def select_other_def fact_cte_def geo_cte_def other_cte_def)

lemma parse_one_two:
  "example_parse_one (example_sql (with_ctes [fact_cte, geo_cte] select_fact))
     = Inr (with_ctes [fact_cte, geo_cte] select_fact)"
  by (simp add: example_parse_one_def example_statements_def)

lemma parse_one_geo:
  "example_parse_one (example_sql (with_ctes [geo_cte] select_fact))
     = Inr (with_ctes [geo_cte] select_fact)"
  by (simp add: example_parse_one_def example_statements_def example_sql_def with_ctes_def
      select_fact_def select_other_def fact_cte_def geo_cte_def other_cte_def)

lemma parse_one_other_fact:
  "example_parse_one (example_sql (with_ctes [other_cte] select_fact))
     = Inr (with_ctes [other_cte] select_fact)"
  by (simp add: example_parse_one_def example_statements_def example_sql_def with_ctes_def
      select_fact_def select_other_def fact_cte_def geo_cte_def other_cte_def)

lemma logical_aliases:
  "is_logical_table (cte_alias fact_cte)" "is_logical_table (cte_alias geo_cte)"
  "\<not> is_logical_table (cte_alias other_cte)"
  by (simp_all add: is_logical_table_def LOGICAL_TABLE_PREFIX_def fact_cte_def geo_cte_def
      other_cte_def)

lemma expand_fact_other:
  "expand_all_logical_tables_as_ctes example_parse_expr example_parse_with example_parse_one
     example_sql ''WITH other AS (SELECT 1) SELECT * FROM other'' \<lparr>tables = [fact_table]\<rparr>
   = Inr (example_sql (with_ctes [fact_cte, other_cte] select_other))"
  by (simp add: expand_all_logical_tables_as_ctes_def canonicalize_fact_table generate_fact
      parse_with_fact parse_one_select_other prefix_ctes_def select_other_def with_ctes_def)






section \<open>Properties of \<^verbatim>\<open>is_aggregation_expr\<close>\<close>

lemma find_all_nonempty_iff: "find_all c e \<noteq> [] \<longleftrightarrow> contains_node c e"
  by (induction c e rule: find_all.induct) (auto simp: list_ex_iff)

lemma ColumnKind_Value_measure: "ColumnKind_Value k = 2 \<longleftrightarrow> k = ColumnKind_measure"
  by (cases k) simp_all

text \<open>
  Claim C2. For a column whose expression parses: when the tree contains an aggregate
  function node and no window node, \<^verbatim>\<open>is_aggregation_expr\<close> raises a \<^verbatim>\<open>ValueError\<close> if the kind
  is not measure and returns true if it is; in every other case it returns false.
\<close>

theorem is_aggregation_expr_cases:
  assumes "parse_expr (Column.expr c) = Inr parsed"
  shows "is_aggregation_expr parse_expr c =
           (if contains_node AggFunc parsed \<and> \<not> contains_node Window parsed
            then (if Column.kind c = ColumnKind_measure then Inr True
                  else Inl (ValueError ''Only allow aggregation expressions for measures.''))
            else Inr False)"
proof -
  have agg: "find_all AggFunc parsed \<noteq> [] \<longleftrightarrow> contains_node AggFunc parsed"
    by (rule find_all_nonempty_iff)
  have win: "find_all Window parsed = [] \<longleftrightarrow> \<not> contains_node Window parsed"
    using find_all_nonempty_iff[of Window parsed] by blast
  show ?thesis
    unfolding is_aggregation_expr_def assms
    by (simp add: Let_def agg win ColumnKind_Value_measure only_measures_message_def
        del: find_all.simps contains_node.simps)
qed

theorem is_aggregation_expr_cases_witness:
  "is_aggregation_expr example_parse_expr total_column = Inr True
   \<and> is_aggregation_expr example_parse_expr (total_column\<lparr>Column.kind := ColumnKind_dimension\<rparr>)
       = Inl (ValueError ''Only allow aggregation expressions for measures.'')
   \<and> is_aggregation_expr example_parse_expr
       (total_column\<lparr>Column.kind := ColumnKind_dimension,
                      Column.expr := ''SUM(amount) OVER (PARTITION BY region_code)''\<rparr>) = Inr False
   \<and> is_aggregation_expr example_parse_expr region_column = Inr False"
  using is_aggregation_expr_cases [of example_parse_expr total_column, OF _]
    is_aggregation_expr_cases [of example_parse_expr
      "total_column\<lparr>Column.kind := ColumnKind_dimension\<rparr>"]
    is_aggregation_expr_cases [of example_parse_expr
      "total_column\<lparr>Column.kind := ColumnKind_dimension,
                      Column.expr := ''SUM(amount) OVER (PARTITION BY region_code)''\<rparr>"]
    is_aggregation_expr_cases [of example_parse_expr region_column]
  by (simp add: total_column_def region_column_def parse_total parse_over parse_region)

section \<open>Properties of \<^verbatim>\<open>_generate_cte_for\<close>\<close>









section \<open>Properties of \<^verbatim>\<open>remove_ltable_cte\<close>\<close>

text \<open>
  Claim C3. On a statement without a \<^verbatim>\<open>WITH\<close> clause, and on one whose first entry's alias
  is no logical table name, \<^verbatim>\<open>remove_ltable_cte\<close> raises a \<^verbatim>\<open>ValueError\<close>. Otherwise a clause of
  one entry is removed whole, and of a longer clause only the first entry is removed: the
  entries after it stay, in their order.
\<close>

theorem remove_ltable_cte_cases:
  assumes "parse_one s = Inr ast"
  shows "(with_clause ast = None \<longrightarrow>
            remove_ltable_cte parse_one sql s = Inl (ValueError ''Must contain the logical CTE.''))
         \<and> (\<forall>w c cs. with_clause ast = Some w \<and> expressions w = c # cs \<longrightarrow>
              remove_ltable_cte parse_one sql s =
                (if \<not> is_logical_table (cte_alias c)
                 then Inl (ValueError ''Must contain the logical CTE.'')
                 else if cs = [] then Inr (sql (ast\<lparr>with_clause := None\<rparr>))
                 else Inr (sql (ast\<lparr>with_clause := Some (w\<lparr>expressions := cs\<rparr>)\<rparr>))))"
  using assms
  by (auto simp: remove_ltable_cte_def remove_first_cte_def must_contain_message_def)

theorem remove_ltable_cte_cases_witness:
  "remove_ltable_cte example_parse_one example_sql ''SELECT * FROM __fact''
     = Inl (ValueError ''Must contain the logical CTE.'')
   \<and> remove_ltable_cte example_parse_one example_sql
         (example_sql (with_ctes [other_cte] select_fact))
     = Inl (ValueError ''Must contain the logical CTE.'')
   \<and> remove_ltable_cte example_parse_one example_sql
         (example_sql (with_ctes [geo_cte] select_fact))
     = Inr ''SELECT * FROM __fact''
   \<and> remove_ltable_cte example_parse_one example_sql
         (example_sql (with_ctes [fact_cte, geo_cte] select_fact))
     = Inr (example_sql (with_ctes [geo_cte] select_fact))"
  using
    remove_ltable_cte_cases [where parse_one = example_parse_one and sql = example_sql
      and s = "''SELECT * FROM __fact''", OF parse_one_select_fact]
    remove_ltable_cte_cases [where parse_one = example_parse_one and sql = example_sql
      and s = "example_sql (with_ctes [other_cte] select_fact)", OF parse_one_other_fact]
    remove_ltable_cte_cases [where parse_one = example_parse_one and sql = example_sql
      and s = "example_sql (with_ctes [geo_cte] select_fact)", OF parse_one_geo]
    remove_ltable_cte_cases [where parse_one = example_parse_one and sql = example_sql
      and s = "example_sql (with_ctes [fact_cte, geo_cte] select_fact)", OF parse_one_two]
  by (simp add: with_ctes_def select_fact_def logical_aliases sql_texts[unfolded select_fact_def])

section \<open>Properties of \<^verbatim>\<open>expand_all_logical_tables_as_ctes\<close>\<close>

lemma generate_full_list_all2:
  "generate_full_logical_table_ctes parse_expr ts = Inr texts \<Longrightarrow>
   list_all2 (\<lambda>t text. generate_cte_for parse_expr t = Inr text) ts texts"
  by (induction ts arbitrary: texts) (auto split: sum.splits)

lemma parse_withs_list_all2:
  "parse_withs parse_with texts = Inr ws \<Longrightarrow>
   list_all2 (\<lambda>text w. parse_with text = Inr w) texts ws"
  by (induction texts arbitrary: ws) (auto split: sum.splits)

lemma first_expressions_list_all2:
  "first_expressions ws = Inr cs \<Longrightarrow>
   list_all2 (\<lambda>w c. expressions w \<noteq> [] \<and> c = hd (expressions w)) ws cs"
  by (induction ws arbitrary: cs) (auto split: sum.splits list.splits)



lemma canonicalize_length:
  "context_to_column_format M = Inr ctx \<Longrightarrow> length (tables ctx) = length (tables M)"
  by (auto simp: context_to_column_format_def split: sum.splits dest: convert_tables_nth)

lemma canonicalize_empty: "tables M = [] \<Longrightarrow> context_to_column_format M = Inr M"
  by (simp add: context_to_column_format_def)

text \<open>
  Claim C10. For a model without tables: on a query without a \<^verbatim>\<open>WITH\<close> clause the call
  raises \<^verbatim>\<open>IndexError\<close> (\<^verbatim>\<open>new_withs[0]\<close> on the empty list); on a query with a \<^verbatim>\<open>WITH\<close>
  clause it returns the statement printed as it was parsed, its entries unchanged.
\<close>

theorem expand_empty_model:
  assumes "tables M = []" and "parse_one Q = Inr q"
  shows "(with_clause q = None \<longrightarrow>
            expand_all_logical_tables_as_ctes parse_expr parse_with parse_one sql Q M
              = Inl IndexError)
         \<and> (\<forall>w. with_clause q = Some w \<longrightarrow>
              prefix_ctes [] q = Inr q
              \<and> expand_all_logical_tables_as_ctes parse_expr parse_with parse_one sql Q M
                  = Inr (sql q))"
proof -
  have same: "q\<lparr>with_clause := Some w\<rparr> = q" if "with_clause q = Some w" for w
    using that by (cases q) simp
  show ?thesis
    using assms
    by (auto simp: expand_all_logical_tables_as_ctes_def canonicalize_empty prefix_ctes_def same)
qed

theorem expand_empty_model_witness:
  "expand_all_logical_tables_as_ctes example_parse_expr example_parse_with example_parse_one
     example_sql ''SELECT * FROM __fact'' \<lparr>tables = []\<rparr> = Inl IndexError
   \<and> expand_all_logical_tables_as_ctes example_parse_expr example_parse_with example_parse_one
       example_sql ''WITH other AS (SELECT 1) SELECT * FROM other'' \<lparr>tables = []\<rparr>
     = Inr ''WITH other AS (SELECT 1) SELECT * FROM other''"
  using
    expand_empty_model [where M = "\<lparr>tables = []\<rparr>" and parse_one = example_parse_one
      and Q = "''SELECT * FROM __fact''" and parse_expr = example_parse_expr
      and parse_with = example_parse_with and sql = example_sql, OF _ parse_one_select_fact]
    expand_empty_model [where M = "\<lparr>tables = []\<rparr>" and parse_one = example_parse_one
      and Q = "''WITH other AS (SELECT 1) SELECT * FROM other''"
      and parse_expr = example_parse_expr
      and parse_with = example_parse_with and sql = example_sql, OF _ parse_one_select_other]
  by (simp add: sql_texts) (simp add: select_fact_def select_other_def)

text \<open>
  Claim C4. When the query has a \<^verbatim>\<open>WITH\<close> clause and the call returns, the entries of the
  resulting clause are the synthesized entries, one per table of the canonical model and in
  the order of the tables (the \<open>i\<close>-th is the first entry parsed from the text generated
  for the \<open>i\<close>-th table), followed by the entries the query had, in their order.
\<close>

theorem expand_prepends:
  assumes "parse_one Q = Inr q" and "with_clause q = Some w"
    and "expand_all_logical_tables_as_ctes parse_expr parse_with parse_one sql Q M = Inr out"
  shows "\<exists>ctx new_ctes.
           context_to_column_format M = Inr ctx
           \<and> length (tables ctx) = length (tables M)
           \<and> length new_ctes = length (tables ctx)
           \<and> (\<forall>i < length (tables ctx). \<exists>text w'.
                 generate_cte_for parse_expr (tables ctx ! i) = Inr text
                 \<and> parse_with text = Inr w' \<and> expressions w' \<noteq> []
                 \<and> new_ctes ! i = hd (expressions w'))
           \<and> out = sql (q\<lparr>with_clause := Some (w\<lparr>expressions := new_ctes @ expressions w\<rparr>)\<rparr>)"
proof -
  from assms(3) obtain ctx texts ws ast' where
    ctx: "context_to_column_format M = Inr ctx"
    and texts: "generate_full_logical_table_ctes parse_expr (tables ctx) = Inr texts"
    and ws: "parse_withs parse_with texts = Inr ws"
    and ast': "prefix_ctes ws q = Inr ast'" and out: "out = sql ast'"
    unfolding expand_all_logical_tables_as_ctes_def assms(1)
    by (auto split: sum.splits)
  from ast' assms(2) obtain new_ctes where
    new: "first_expressions ws = Inr new_ctes"
    and ast: "ast' = q\<lparr>with_clause := Some (w\<lparr>expressions := new_ctes @ expressions w\<rparr>)\<rparr>"
    by (auto simp: prefix_ctes_def split: sum.splits)
  note a = generate_full_list_all2[OF texts] parse_withs_list_all2[OF ws]
    first_expressions_list_all2[OF new]
  have len: "length texts = length (tables ctx)" "length ws = length texts"
    "length new_ctes = length ws"
    using a by (simp_all add: list_all2_lengthD)
  have "\<exists>text w'. generate_cte_for parse_expr (tables ctx ! i) = Inr text
          \<and> parse_with text = Inr w' \<and> expressions w' \<noteq> []
          \<and> new_ctes ! i = hd (expressions w')" if "i < length (tables ctx)" for i
    using a that len by (auto simp: list_all2_conv_all_nth)
  with ctx len out ast canonicalize_length[OF ctx] show ?thesis by auto
qed

theorem expand_prepends_witness:
  "expand_all_logical_tables_as_ctes example_parse_expr example_parse_with example_parse_one
     example_sql ''WITH other AS (SELECT 1) SELECT * FROM other'' \<lparr>tables = [fact_table]\<rparr>
   = Inr (example_sql (with_ctes [fact_cte, other_cte] select_other))
   \<and> map cte_alias [fact_cte, other_cte] = [''__fact'', ''other'']"
  using expand_prepends [where parse_one = example_parse_one
      and Q = "''WITH other AS (SELECT 1) SELECT * FROM other''"
      and parse_expr = example_parse_expr and parse_with = example_parse_with
      and sql = example_sql and M = "\<lparr>tables = [fact_table]\<rparr>"
      and w = "\<lparr>expressions = [other_cte], recursive = False\<rparr>",
      OF parse_one_select_other _ expand_fact_other]
    expand_fact_other
  by (simp add: select_other_def fact_cte_def other_cte_def)






end
